theory Spec2Isabelle
  imports Main
begin

section \<open>The APsystems EZHI local API integration: update coordinator and set-power service\<close>

text \<open>
  The development embeds \<^verbatim>\<open>custom_components/apsystems_ezhi_local/__init__.py\<close>:
  the coordinator's \<^verbatim>\<open>__init__\<close>, \<^verbatim>\<open>_async_update_data\<close> and
  \<^verbatim>\<open>_async_refresh\<close>, and the \<^verbatim>\<open>set_power_service\<close> closure of
  \<^verbatim>\<open>async_setup_entry\<close>. Mutation of \<^verbatim>\<open>self\<close> is explicit state passing,
  every \<^verbatim>\<open>raise\<close> is a value, and the logger calls, the device-client calls and the
  listener callbacks are appended to traces kept in the state.
\<close>

subsection \<open>Exceptions\<close>

text \<open>
  The exception classes the code distinguishes. \<open>TimeoutError\<close> and
  \<open>ClientConnectionError\<close> are the two classes named by the \<^verbatim>\<open>except\<close> clause of
  \<^verbatim>\<open>_async_update_data\<close>; \<open>InverterNotAvailable\<close> is the class the module declares;
  \<open>OtherException\<close> stands for an instance of any other subclass of Python's
  \<^verbatim>\<open>Exception\<close>; \<open>CancelledError\<close> is a \<^verbatim>\<open>BaseException\<close> that is not an
  \<^verbatim>\<open>Exception\<close> (what an \<^verbatim>\<open>await\<close> raises when its task is cancelled), which no
  \<^verbatim>\<open>except Exception\<close> clause catches.
\<close>

datatype exn =
    TimeoutError
  | ClientConnectionError
  | InverterNotAvailable
  | OtherException string
  | CancelledError

text \<open>\<^verbatim>\<open>isinstance(e, Exception)\<close>\<close>

fun is_Exception :: "exn \<Rightarrow> bool" where
  "is_Exception CancelledError = False"
| "is_Exception _ = True"

text \<open>\<^verbatim>\<open>isinstance(e, (TimeoutError, client_exceptions.ClientConnectionError))\<close>\<close>

fun is_unreachable :: "exn \<Rightarrow> bool" where
  "is_unreachable TimeoutError = True"
| "is_unreachable ClientConnectionError = True"
| "is_unreachable _ = False"

subsection \<open>Logger calls, device-client calls\<close>

datatype level = DEBUG | INFO | WARNING | ERROR

text \<open>
  One constructor per logging call of the module, carrying the call's arguments. The duration
  argument of the timing message is a wall-clock difference and is left out.
\<close>

datatype message =
    Setting_power int
  | Below_minimum int int
  | Above_maximum int int
  | Failed_to_get_device_info exn
  | Unexpected_error_fetching exn
  | Fetching_recovered
  | Finished_fetching bool

type_synonym log_record = "level \<times> message"

datatype api_call = Get_device_info | Get_output_data | Set_power int

text \<open>
  The device client as one invocation sees it: what \<^verbatim>\<open>get_device_info()\<close> and
  \<^verbatim>\<open>get_output_data()\<close> do if they are awaited (raise, \<open>Inl\<close>, or return, \<open>Inr\<close>),
  and what \<^verbatim>\<open>set_power(value)\<close> does for each value. The client lives in
  \<^verbatim>\<open>api.py\<close>, which the repository's sources here do not include; its return values
  are the type parameters: \<open>'b\<close> is a device-info object (the spec's
  \<^verbatim>\<open>get_device_info() -> DeviceInfo\<close>), and \<open>'a option\<close> is
  \<^verbatim>\<open>ReturnOutputData | None\<close>, the return annotation of \<^verbatim>\<open>_async_update_data\<close>.
\<close>

record ('a, 'b) api =
  get_device_info :: "exn + 'b"
  get_output_data :: "exn + 'a option"
  set_power :: "int \<Rightarrow> exn + unit"

subsection \<open>The coordinator\<close>

text \<open>
  The fields of \<^verbatim>\<open>ApSystemsDataCoordinator\<close> that the module reads or writes. The
  first six are the coordinator's own data; \<open>shutdown_requested\<close>, \<open>listeners\<close>,
  \<open>unsub_refresh\<close> (the pending timer, with its delay in seconds) and \<open>debounced_refresh\<close>
  (a pending debounced refresh) belong to the base class; \<open>is_stopping\<close> is
  \<^verbatim>\<open>self.hass.is_stopping\<close> and \<open>debug_enabled\<close> is
  \<^verbatim>\<open>self.logger.isEnabledFor(logging.DEBUG)\<close>. The last three fields are the traces:
  logger calls, device-client calls, and listener callbacks run, oldest first.
\<close>

record ('a, 'b) coordinator =
  data :: "'a option"
  last_update_success :: bool
  last_exception :: "exn option"
  device_info :: "'b option"
  always_update :: bool
  update_interval :: int
  shutdown_requested :: bool
  listeners :: "nat list"
  unsub_refresh :: "int option"
  debounced_refresh :: bool
  is_stopping :: bool
  debug_enabled :: bool
  logged :: "log_record list"
  api_calls :: "api_call list"
  notified :: "nat list"

text \<open>
  \<^verbatim>\<open>__init__(self, hass, api, interval=10)\<close>: \<open>None\<close> becomes 10 before the base
  class's constructor is given the interval; then \<^verbatim>\<open>always_update\<close> and
  \<^verbatim>\<open>device_info\<close> are assigned. \<open>base\<close> is the object as the base class's constructor
  leaves its other fields.
\<close>

definition coordinator_init ::
  "('a, 'b) coordinator \<Rightarrow> int option \<Rightarrow> ('a, 'b) coordinator" where
  "coordinator_init base interval =
     (let interval = (case interval of None \<Rightarrow> 10 | Some i \<Rightarrow> i) in
      base\<lparr>update_interval := interval, always_update := True, device_info := None\<rparr>)"

text \<open>Lines 102 to 106: the inner \<^verbatim>\<open>try\<close>. The first component is an exception that
  escapes it.\<close>

definition fetch_device_info ::
  "('a, 'b) api \<Rightarrow> ('a, 'b) coordinator \<Rightarrow> exn option \<times> ('a, 'b) coordinator" where
  "fetch_device_info api s =
     (if device_info s = None then
        (let s1 = s\<lparr>api_calls := api_calls s @ [Get_device_info]\<rparr> in
         case get_device_info api of
           Inr info \<Rightarrow> (None, s1\<lparr>device_info := Some info\<rparr>)
         | Inl e \<Rightarrow>
             if is_Exception e
             then (None, s1\<lparr>logged := logged s1 @ [(WARNING, Failed_to_get_device_info e)]\<rparr>)
             else (Some e, s1))
      else (None, s))"

text \<open>The \<^verbatim>\<open>except (TimeoutError, ClientConnectionError)\<close> clause of line 110, applied to
  an exception that leaves the body of the outer \<^verbatim>\<open>try\<close>.\<close>

definition reraise :: "exn \<Rightarrow> exn" where
  "reraise e = (if is_unreachable e then InverterNotAvailable else e)"

text \<open>\<^verbatim>\<open>_async_update_data\<close>: \<open>Inl\<close> is the exception raised, \<open>Inr\<close> the value
  returned.\<close>

definition async_update_data ::
  "('a, 'b) api \<Rightarrow> ('a, 'b) coordinator \<Rightarrow> (exn + 'a option) \<times> ('a, 'b) coordinator" where
  "async_update_data api s =
     (case fetch_device_info api s of
        (Some e, s1) \<Rightarrow> (Inl (reraise e), s1)
      | (None, s1) \<Rightarrow>
          (let s2 = s1\<lparr>api_calls := api_calls s1 @ [Get_output_data]\<rparr> in
           case get_output_data api of
             Inr d \<Rightarrow> (Inr d, s2)
           | Inl e \<Rightarrow> (Inl (reraise e), s2)))"

text \<open>Modelled from the spec: the four operations of the host framework's base class
  (\<^verbatim>\<open>DataUpdateCoordinator\<close>, not part of the repository) that
  \<^verbatim>\<open>_async_refresh\<close> calls, in the spec's words a cancelable timer registration with
  a duration, a debounced-refresh cancel primitive, and the notification of all subscribers:
  \<^verbatim>\<open>_async_unsub_refresh\<close> cancels the pending timer,
  \<^verbatim>\<open>_debounced_refresh.async_cancel\<close> cancels the pending debounced refresh,
  \<^verbatim>\<open>_schedule_refresh\<close> arranges the next timer-driven invocation after the configured
  interval, and \<^verbatim>\<open>async_update_listeners\<close> runs every listener's callback.\<close>

definition async_unsub_refresh :: "('a, 'b) coordinator \<Rightarrow> ('a, 'b) coordinator" where
  "async_unsub_refresh s = s\<lparr>unsub_refresh := None\<rparr>"

definition async_cancel :: "('a, 'b) coordinator \<Rightarrow> ('a, 'b) coordinator" where
  "async_cancel s = s\<lparr>debounced_refresh := False\<rparr>"

definition schedule_refresh :: "('a, 'b) coordinator \<Rightarrow> ('a, 'b) coordinator" where
  "schedule_refresh s = s\<lparr>unsub_refresh := Some (update_interval s)\<rparr>"

definition async_update_listeners :: "('a, 'b) coordinator \<Rightarrow> ('a, 'b) coordinator" where
  "async_update_listeners s = s\<lparr>notified := notified s @ listeners s\<rparr>"

text \<open>Line 123: the condition under which \<^verbatim>\<open>_async_refresh\<close> returns at once.\<close>

definition refresh_aborts :: "bool \<Rightarrow> ('a, 'b) coordinator \<Rightarrow> bool" where
  "refresh_aborts scheduled s \<longleftrightarrow> shutdown_requested s \<or> scheduled \<and> is_stopping s"

text \<open>Lines 133 to 146: the \<^verbatim>\<open>try\<close> with its two \<^verbatim>\<open>except\<close> clauses and its
  \<^verbatim>\<open>else\<close>. The first component is an exception that no clause caught (it is re-raised
  after the \<^verbatim>\<open>finally\<close> block). \<^verbatim>\<open>exc_triggered\<close> is still false in the
  \<^verbatim>\<open>else\<close> clause.\<close>

definition try_update ::
  "('a, 'b) api \<Rightarrow> ('a, 'b) coordinator \<Rightarrow> exn option \<times> ('a, 'b) coordinator" where
  "try_update api s =
     (case async_update_data api s of
        (Inr d, s1) \<Rightarrow>
          (let s2 = s1\<lparr>data := d\<rparr>; exc_triggered = False in
           if \<not> last_update_success s2 \<and> \<not> exc_triggered
           then (None, s2\<lparr>last_update_success := True,
                           logged := logged s2 @ [(INFO, Fetching_recovered)]\<rparr>)
           else (None, s2))
      | (Inl e, s1) \<Rightarrow>
          if e = InverterNotAvailable then (None, s1\<lparr>last_update_success := False\<rparr>)
          else if is_Exception e
          then (None, s1\<lparr>last_exception := Some e, last_update_success := False,
                          logged := logged s1 @ [(ERROR, Unexpected_error_fetching e)]\<rparr>)
          else (Some e, s1))"

text \<open>Lines 147 to 156: the \<^verbatim>\<open>finally\<close> block. \<^verbatim>\<open>auth_failed\<close> is false
  throughout.\<close>

definition finally_refresh :: "bool \<Rightarrow> ('a, 'b) coordinator \<Rightarrow> ('a, 'b) coordinator" where
  "finally_refresh log_timing s =
     (let auth_failed = False;
          s1 = (if log_timing
                then s\<lparr>logged := logged s @ [(DEBUG, Finished_fetching (last_update_success s))]\<rparr>
                else s)
      in if \<not> auth_failed \<and> listeners s1 \<noteq> [] \<and> \<not> is_stopping s1
         then schedule_refresh s1 else s1)"

text \<open>\<^verbatim>\<open>_async_refresh\<close>. The first component of the result is the exception the call
  raises to its caller, \<open>None\<close> when it returns.\<close>

definition async_refresh ::
  "bool \<Rightarrow> ('a, 'b) api \<Rightarrow> ('a, 'b) coordinator \<Rightarrow> exn option \<times> ('a, 'b) coordinator" where
  "async_refresh scheduled api s0 =
     (let s = async_cancel (async_unsub_refresh s0) in
      if shutdown_requested s \<or> scheduled \<and> is_stopping s then (None, s)
      else
        (let log_timing = debug_enabled s;
             previous_update_success = last_update_success s;
             previous_data = data s
         in case try_update api s of (raised, s2) \<Rightarrow>
           (let s3 = finally_refresh log_timing s2 in
            case raised of
              Some e \<Rightarrow> (Some e, s3)
            | None \<Rightarrow>
                if \<not> last_update_success s3 \<and> \<not> previous_update_success then (None, s3)
                else if always_update s3
                        \<or> last_update_success s3 \<noteq> previous_update_success
                        \<or> previous_data \<noteq> data s3
                     then (None, async_update_listeners s3)
                     else (None, s3))))"

text \<open>A sequence of refresh invocations, each with its \<^verbatim>\<open>scheduled\<close> flag and the
  device's behaviour during it; an exception raised by one invocation goes to its caller and
  the next invocation starts from the state that one left.\<close>

fun refresh_all ::
  "(bool \<times> ('a, 'b) api) list \<Rightarrow> ('a, 'b) coordinator \<Rightarrow> ('a, 'b) coordinator" where
  "refresh_all [] s = s"
| "refresh_all ((scheduled, api) # rest) s =
     refresh_all rest (snd (async_refresh scheduled api s))"

subsection \<open>The set-power service\<close>

text \<open>
  \<^verbatim>\<open>set_power_service(call)\<close>, with \<open>pwr\<close> for \<^verbatim>\<open>call.data["power"]\<close>. The constants
  \<^verbatim>\<open>MIN_VALUE\<close> and \<^verbatim>\<open>MAX_VALUE\<close> of \<^verbatim>\<open>const.py\<close> are parameters. The
  result is what the call raises (\<open>Inl\<close>) or that it returns (\<open>Inr\<close>), the logger calls
  it made and the device-client calls it made, in order.
\<close>

definition set_power_service ::
  "int \<Rightarrow> int \<Rightarrow> ('a, 'b) api \<Rightarrow> int \<Rightarrow> (exn + unit) \<times> log_record list \<times> api_call list" where
  "set_power_service MIN_VALUE MAX_VALUE api pwr =
     (let log0 = [(DEBUG, Setting_power pwr)];
          (pwr', log1) =
            (if pwr < MIN_VALUE
             then (MIN_VALUE, log0 @ [(WARNING, Below_minimum pwr MIN_VALUE)])
             else if pwr > MAX_VALUE
             then (MAX_VALUE, log0 @ [(WARNING, Above_maximum pwr MAX_VALUE)])
             else (pwr, log0))
      in (set_power api pwr', log1, [Set_power pwr']))"

subsection \<open>Example devices and an example coordinator\<close>

text \<open>A device that answers, one that times out, and one whose answers cannot be parsed; and
  a coordinator with two listeners whose previous poll failed with an unexpected error.\<close>

definition device_ok :: "(nat, string) api" where
  "device_ok = \<lparr>get_device_info = Inr ''EZHI'', get_output_data = Inr (Some 42),
                 set_power = (\<lambda>v. Inr ())\<rparr>"

definition device_timeout :: "(nat, string) api" where
  "device_timeout = \<lparr>get_device_info = Inl TimeoutError, get_output_data = Inl TimeoutError,
                      set_power = (\<lambda>v. Inl TimeoutError)\<rparr>"

definition device_broken :: "(nat, string) api" where
  "device_broken = \<lparr>get_device_info = Inl (OtherException ''bad json''),
                     get_output_data = Inl (OtherException ''bad json''),
                     set_power = (\<lambda>v. Inl (OtherException ''bad json''))\<rparr>"

definition failed_coordinator :: "(nat, string) coordinator" where
  "failed_coordinator =
     \<lparr>data = Some 7, last_update_success = False,
      last_exception = Some (OtherException ''old''), device_info = None,
      always_update = True, update_interval = 10, shutdown_requested = False,
      listeners = [1, 2], unsub_refresh = Some 10, debounced_refresh = True,
      is_stopping = False, debug_enabled = True, logged = [], api_calls = [], notified = []\<rparr>"

subsection \<open>Notation\<close>

text \<open>The coordinator as one refresh invocation leaves it, and the outcome of the poll, what
  \<^verbatim>\<open>_async_update_data\<close> raises or returns.\<close>

abbreviation refreshed ::
  "bool \<Rightarrow> ('a, 'b) api \<Rightarrow> ('a, 'b) coordinator \<Rightarrow> ('a, 'b) coordinator" where
  "refreshed scheduled api s \<equiv> snd (async_refresh scheduled api s)"

abbreviation poll :: "('a, 'b) api \<Rightarrow> ('a, 'b) coordinator \<Rightarrow> exn + 'a option" where
  "poll api s \<equiv> fst (async_update_data api s)"

section \<open>The stages of a refresh invocation\<close>

subsection \<open>What each stage leaves unchanged, and what it returns\<close>

lemma fetch_frame:
  "data (snd (fetch_device_info api s)) = data s"
  "last_update_success (snd (fetch_device_info api s)) = last_update_success s"
  "last_exception (snd (fetch_device_info api s)) = last_exception s"
  "always_update (snd (fetch_device_info api s)) = always_update s"
  "update_interval (snd (fetch_device_info api s)) = update_interval s"
  "shutdown_requested (snd (fetch_device_info api s)) = shutdown_requested s"
  "listeners (snd (fetch_device_info api s)) = listeners s"
  "unsub_refresh (snd (fetch_device_info api s)) = unsub_refresh s"
  "debounced_refresh (snd (fetch_device_info api s)) = debounced_refresh s"
  "is_stopping (snd (fetch_device_info api s)) = is_stopping s"
  "debug_enabled (snd (fetch_device_info api s)) = debug_enabled s"
  "notified (snd (fetch_device_info api s)) = notified s"
  by (simp_all add: fetch_device_info_def Let_def split: sum.split)

lemma fetch_fst:
  "fst (fetch_device_info api s) =
     (if device_info s = None
      then (case get_device_info api of
              Inr info \<Rightarrow> None
            | Inl e \<Rightarrow> if is_Exception e then None else Some e)
      else None)"
  by (simp add: fetch_device_info_def Let_def split: sum.split)

lemma fetch_device_info_field:
  "device_info (snd (fetch_device_info api s)) =
     (if device_info s = None
      then (case get_device_info api of Inr info \<Rightarrow> Some info | Inl e \<Rightarrow> None)
      else device_info s)"
  by (simp add: fetch_device_info_def Let_def split: sum.split)

lemma fetch_api_calls:
  "api_calls (snd (fetch_device_info api s)) =
     api_calls s @ (if device_info s = None then [Get_device_info] else [])"
  by (simp add: fetch_device_info_def Let_def split: sum.split)

lemma fetch_logged:
  "logged (snd (fetch_device_info api s)) =
     logged s @
     (if device_info s = None
      then (case get_device_info api of
              Inr info \<Rightarrow> []
            | Inl e \<Rightarrow> if is_Exception e then [(WARNING, Failed_to_get_device_info e)] else [])
      else [])"
  by (simp add: fetch_device_info_def Let_def split: sum.split)

lemma update_snd:
  "snd (async_update_data api s) =
     (case fst (fetch_device_info api s) of
        Some e \<Rightarrow> snd (fetch_device_info api s)
      | None \<Rightarrow> (snd (fetch_device_info api s))
          \<lparr>api_calls := api_calls (snd (fetch_device_info api s)) @ [Get_output_data]\<rparr>)"
  by (cases "fetch_device_info api s")
     (simp add: async_update_data_def Let_def split: option.split sum.split)

lemma update_fst:
  "fst (async_update_data api s) =
     (case fst (fetch_device_info api s) of
        Some e \<Rightarrow> Inl (reraise e)
      | None \<Rightarrow> (case get_output_data api of Inr d \<Rightarrow> Inr d | Inl e \<Rightarrow> Inl (reraise e)))"
  by (cases "fetch_device_info api s")
     (simp add: async_update_data_def Let_def split: option.split sum.split)

lemma update_frame:
  "data (snd (async_update_data api s)) = data s"
  "last_update_success (snd (async_update_data api s)) = last_update_success s"
  "last_exception (snd (async_update_data api s)) = last_exception s"
  "always_update (snd (async_update_data api s)) = always_update s"
  "update_interval (snd (async_update_data api s)) = update_interval s"
  "shutdown_requested (snd (async_update_data api s)) = shutdown_requested s"
  "listeners (snd (async_update_data api s)) = listeners s"
  "unsub_refresh (snd (async_update_data api s)) = unsub_refresh s"
  "debounced_refresh (snd (async_update_data api s)) = debounced_refresh s"
  "is_stopping (snd (async_update_data api s)) = is_stopping s"
  "debug_enabled (snd (async_update_data api s)) = debug_enabled s"
  "notified (snd (async_update_data api s)) = notified s"
  by (simp_all add: update_snd fetch_frame split: option.split)

lemma update_device_info:
  "device_info (snd (async_update_data api s)) =
     (if device_info s = None
      then (case get_device_info api of Inr info \<Rightarrow> Some info | Inl e \<Rightarrow> None)
      else device_info s)"
  by (simp add: update_snd fetch_device_info_field split: option.split)

lemma update_api_calls:
  "api_calls (snd (async_update_data api s)) =
     api_calls s @ (if device_info s = None then [Get_device_info] else [])
       @ (if fst (fetch_device_info api s) = None then [Get_output_data] else [])"
  by (simp add: update_snd fetch_api_calls split: option.split)

lemma update_logged:
  "logged (snd (async_update_data api s)) = logged (snd (fetch_device_info api s))"
  by (simp add: update_snd split: option.split)

lemma try_update_fst:
  "fst (try_update api s) =
     (case fst (async_update_data api s) of
        Inr d \<Rightarrow> None
      | Inl e \<Rightarrow> if e = InverterNotAvailable \<or> is_Exception e then None else Some e)"
  by (cases "async_update_data api s")
     (simp add: try_update_def Let_def split: sum.split)

lemma try_update_frame:
  "always_update (snd (try_update api s)) = always_update s"
  "update_interval (snd (try_update api s)) = update_interval s"
  "shutdown_requested (snd (try_update api s)) = shutdown_requested s"
  "listeners (snd (try_update api s)) = listeners s"
  "unsub_refresh (snd (try_update api s)) = unsub_refresh s"
  "debounced_refresh (snd (try_update api s)) = debounced_refresh s"
  "is_stopping (snd (try_update api s)) = is_stopping s"
  "debug_enabled (snd (try_update api s)) = debug_enabled s"
  "notified (snd (try_update api s)) = notified s"
  "device_info (snd (try_update api s)) = device_info (snd (async_update_data api s))"
  "api_calls (snd (try_update api s)) = api_calls (snd (async_update_data api s))"
  using update_frame [of api s]
  by (cases "async_update_data api s"; simp add: try_update_def Let_def split: sum.split)+

lemma try_update_data:
  "data (snd (try_update api s)) =
     (case fst (async_update_data api s) of Inr d \<Rightarrow> d | Inl e \<Rightarrow> data s)"
  using update_frame(1) [of api s]
  by (cases "async_update_data api s") (simp add: try_update_def Let_def split: sum.split)

lemma try_update_success:
  "last_update_success (snd (try_update api s)) =
     (case fst (async_update_data api s) of
        Inr d \<Rightarrow> True
      | Inl e \<Rightarrow> if e = InverterNotAvailable \<or> is_Exception e then False
                 else last_update_success s)"
  using update_frame(2) [of api s]
  by (cases "async_update_data api s") (auto simp add: try_update_def Let_def split: sum.split)

lemma try_update_exception:
  "last_exception (snd (try_update api s)) =
     (case fst (async_update_data api s) of
        Inr d \<Rightarrow> last_exception s
      | Inl e \<Rightarrow> if e \<noteq> InverterNotAvailable \<and> is_Exception e then Some e
                 else last_exception s)"
  using update_frame(3) [of api s]
  by (cases "async_update_data api s") (simp add: try_update_def Let_def split: sum.split)

lemma try_update_logged:
  "logged (snd (try_update api s)) =
     logged (snd (async_update_data api s)) @
     (case fst (async_update_data api s) of
        Inr d \<Rightarrow> if last_update_success s then [] else [(INFO, Fetching_recovered)]
      | Inl e \<Rightarrow> if e \<noteq> InverterNotAvailable \<and> is_Exception e
                 then [(ERROR, Unexpected_error_fetching e)] else [])"
  using update_frame(2) [of api s]
  by (cases "async_update_data api s") (simp add: try_update_def Let_def split: sum.split)

lemma finally_frame:
  "data (finally_refresh t s) = data s"
  "last_update_success (finally_refresh t s) = last_update_success s"
  "last_exception (finally_refresh t s) = last_exception s"
  "device_info (finally_refresh t s) = device_info s"
  "always_update (finally_refresh t s) = always_update s"
  "update_interval (finally_refresh t s) = update_interval s"
  "shutdown_requested (finally_refresh t s) = shutdown_requested s"
  "listeners (finally_refresh t s) = listeners s"
  "debounced_refresh (finally_refresh t s) = debounced_refresh s"
  "is_stopping (finally_refresh t s) = is_stopping s"
  "debug_enabled (finally_refresh t s) = debug_enabled s"
  "api_calls (finally_refresh t s) = api_calls s"
  "notified (finally_refresh t s) = notified s"
  by (simp_all add: finally_refresh_def schedule_refresh_def Let_def)

lemma finally_logged:
  "logged (finally_refresh t s) =
     logged s @ (if t then [(DEBUG, Finished_fetching (last_update_success s))] else [])"
  by (simp add: finally_refresh_def schedule_refresh_def Let_def)

lemma finally_unsub:
  "unsub_refresh (finally_refresh t s) =
     (if listeners s \<noteq> [] \<and> \<not> is_stopping s then Some (update_interval s)
      else unsub_refresh s)"
  by (simp add: finally_refresh_def schedule_refresh_def Let_def)


subsection \<open>One refresh invocation\<close>

lemma refresh_abort:
  "refresh_aborts scheduled s \<Longrightarrow>
   async_refresh scheduled api s = (None, s\<lparr>unsub_refresh := None, debounced_refresh := False\<rparr>)"
  by (simp add: async_refresh_def refresh_aborts_def async_cancel_def async_unsub_refresh_def)

lemma cancelled_fields:
  "data (async_cancel (async_unsub_refresh s)) = data s"
  "last_update_success (async_cancel (async_unsub_refresh s)) = last_update_success s"
  "last_exception (async_cancel (async_unsub_refresh s)) = last_exception s"
  "device_info (async_cancel (async_unsub_refresh s)) = device_info s"
  "always_update (async_cancel (async_unsub_refresh s)) = always_update s"
  "update_interval (async_cancel (async_unsub_refresh s)) = update_interval s"
  "shutdown_requested (async_cancel (async_unsub_refresh s)) = shutdown_requested s"
  "listeners (async_cancel (async_unsub_refresh s)) = listeners s"
  "unsub_refresh (async_cancel (async_unsub_refresh s)) = None"
  "debounced_refresh (async_cancel (async_unsub_refresh s)) = False"
  "is_stopping (async_cancel (async_unsub_refresh s)) = is_stopping s"
  "debug_enabled (async_cancel (async_unsub_refresh s)) = debug_enabled s"
  "logged (async_cancel (async_unsub_refresh s)) = logged s"
  "api_calls (async_cancel (async_unsub_refresh s)) = api_calls s"
  "notified (async_cancel (async_unsub_refresh s)) = notified s"
  by (simp_all add: async_cancel_def async_unsub_refresh_def)

lemma cancelled_update:
  "fst (fetch_device_info api (async_cancel (async_unsub_refresh s))) = fst (fetch_device_info api s)"
  "fst (async_update_data api (async_cancel (async_unsub_refresh s))) = fst (async_update_data api s)"
  "device_info (snd (async_update_data api (async_cancel (async_unsub_refresh s))))
     = device_info (snd (async_update_data api s))"
  "api_calls (snd (async_update_data api (async_cancel (async_unsub_refresh s))))
     = api_calls (snd (async_update_data api s))"
  "logged (snd (async_update_data api (async_cancel (async_unsub_refresh s))))
     = logged (snd (async_update_data api s))"
  by (simp_all add: update_fst fetch_fst update_device_info update_api_calls update_logged
        fetch_logged cancelled_fields)

lemma refresh_run:
  "\<not> refresh_aborts scheduled s \<Longrightarrow>
   async_refresh scheduled api s =
     (let T = try_update api (async_cancel (async_unsub_refresh s));
          F = finally_refresh (debug_enabled s) (snd T)
      in (fst T,
          if fst T = None \<and> (last_update_success F \<or> last_update_success s)
             \<and> (always_update F \<or> last_update_success F \<noteq> last_update_success s
                  \<or> data s \<noteq> data F)
          then async_update_listeners F else F))"
  by (cases "try_update api (async_cancel (async_unsub_refresh s))")
     (auto simp add: async_refresh_def refresh_aborts_def cancelled_fields Let_def
           split: option.split)

lemma listeners_frame:
  "data (async_update_listeners s) = data s"
  "last_update_success (async_update_listeners s) = last_update_success s"
  "last_exception (async_update_listeners s) = last_exception s"
  "device_info (async_update_listeners s) = device_info s"
  "always_update (async_update_listeners s) = always_update s"
  "update_interval (async_update_listeners s) = update_interval s"
  "shutdown_requested (async_update_listeners s) = shutdown_requested s"
  "listeners (async_update_listeners s) = listeners s"
  "unsub_refresh (async_update_listeners s) = unsub_refresh s"
  "debounced_refresh (async_update_listeners s) = debounced_refresh s"
  "is_stopping (async_update_listeners s) = is_stopping s"
  "debug_enabled (async_update_listeners s) = debug_enabled s"
  "logged (async_update_listeners s) = logged s"
  "api_calls (async_update_listeners s) = api_calls s"
  "notified (async_update_listeners s) = notified s @ listeners s"
  by (simp_all add: async_update_listeners_def)

lemma refresh_fst:
  "\<not> refresh_aborts scheduled s \<Longrightarrow>
   fst (async_refresh scheduled api s) =
     (case fst (async_update_data api s) of
        Inr d \<Rightarrow> None
      | Inl e \<Rightarrow> if e = InverterNotAvailable \<or> is_Exception e then None else Some e)"
  by (cases "fst (async_update_data api s)")
     (simp_all add: refresh_run Let_def try_update_fst cancelled_update)

lemma refresh_data:
  "\<not> refresh_aborts scheduled s \<Longrightarrow>
   data (snd (async_refresh scheduled api s)) =
     (case fst (async_update_data api s) of Inr d \<Rightarrow> d | Inl e \<Rightarrow> data s)"
  by (cases "fst (async_update_data api s)")
     (simp_all add: refresh_run Let_def listeners_frame finally_frame try_update_data
        cancelled_update cancelled_fields)

lemma refresh_success:
  "\<not> refresh_aborts scheduled s \<Longrightarrow>
   last_update_success (snd (async_refresh scheduled api s)) =
     (case fst (async_update_data api s) of
        Inr d \<Rightarrow> True
      | Inl e \<Rightarrow> if e = InverterNotAvailable \<or> is_Exception e then False
                 else last_update_success s)"
  by (cases "fst (async_update_data api s)")
     (simp_all add: refresh_run Let_def listeners_frame finally_frame try_update_success
        cancelled_update cancelled_fields)

lemma refresh_exception:
  "\<not> refresh_aborts scheduled s \<Longrightarrow>
   last_exception (snd (async_refresh scheduled api s)) =
     (case fst (async_update_data api s) of
        Inr d \<Rightarrow> last_exception s
      | Inl e \<Rightarrow> if e \<noteq> InverterNotAvailable \<and> is_Exception e then Some e
                 else last_exception s)"
  by (cases "fst (async_update_data api s)")
     (simp_all add: refresh_run Let_def listeners_frame finally_frame try_update_exception
        cancelled_update cancelled_fields)

lemma refresh_device_info:
  "\<not> refresh_aborts scheduled s \<Longrightarrow>
   device_info (snd (async_refresh scheduled api s)) =
     (if device_info s = None
      then (case get_device_info api of Inr info \<Rightarrow> Some info | Inl e \<Rightarrow> None)
      else device_info s)"
  by (cases "fst (async_update_data api s)")
     (simp_all add: refresh_run Let_def listeners_frame finally_frame try_update_frame
        cancelled_update cancelled_fields update_device_info)

lemma refresh_api_calls:
  "\<not> refresh_aborts scheduled s \<Longrightarrow>
   api_calls (snd (async_refresh scheduled api s)) =
     api_calls s @ (if device_info s = None then [Get_device_info] else [])
       @ (if fst (fetch_device_info api s) = None then [Get_output_data] else [])"
  by (cases "fst (async_update_data api s)")
     (simp_all add: refresh_run Let_def listeners_frame finally_frame try_update_frame
        cancelled_update cancelled_fields update_api_calls)

lemma refresh_unsub:
  "\<not> refresh_aborts scheduled s \<Longrightarrow>
   unsub_refresh (snd (async_refresh scheduled api s)) =
     (if listeners s \<noteq> [] \<and> \<not> is_stopping s then Some (update_interval s) else None)"
  by (cases "fst (async_update_data api s)")
     (simp_all add: refresh_run Let_def listeners_frame finally_unsub try_update_frame
        cancelled_fields)

lemma refresh_frame:
  "\<not> refresh_aborts scheduled s \<Longrightarrow>
   always_update (snd (async_refresh scheduled api s)) = always_update s
   \<and> update_interval (snd (async_refresh scheduled api s)) = update_interval s
   \<and> shutdown_requested (snd (async_refresh scheduled api s)) = shutdown_requested s
   \<and> listeners (snd (async_refresh scheduled api s)) = listeners s
   \<and> is_stopping (snd (async_refresh scheduled api s)) = is_stopping s
   \<and> debug_enabled (snd (async_refresh scheduled api s)) = debug_enabled s"
  by (cases "fst (async_update_data api s)")
     (simp_all add: refresh_run Let_def listeners_frame finally_frame try_update_frame
        cancelled_fields)

lemma refresh_notified:
  "\<not> refresh_aborts scheduled s \<Longrightarrow>
   notified (snd (async_refresh scheduled api s)) =
     notified s @
     (if fst (async_refresh scheduled api s) = None
         \<and> (last_update_success (snd (async_refresh scheduled api s)) \<or> last_update_success s)
         \<and> (always_update s
              \<or> last_update_success (snd (async_refresh scheduled api s)) \<noteq> last_update_success s
              \<or> data s \<noteq> data (snd (async_refresh scheduled api s)))
      then listeners s else [])"
  by (cases "fst (async_update_data api s)")
     (simp_all add: refresh_run Let_def listeners_frame finally_frame try_update_frame
        cancelled_fields)

lemma refresh_logged:
  "\<not> refresh_aborts scheduled s \<Longrightarrow>
   logged (snd (async_refresh scheduled api s)) =
     logged (snd (fetch_device_info api s)) @
     (case fst (async_update_data api s) of
        Inr d \<Rightarrow> if last_update_success s then [] else [(INFO, Fetching_recovered)]
      | Inl e \<Rightarrow> if e \<noteq> InverterNotAvailable \<and> is_Exception e
                 then [(ERROR, Unexpected_error_fetching e)] else []) @
     (if debug_enabled s
      then [(DEBUG, Finished_fetching (last_update_success (snd (async_refresh scheduled api s))))]
      else [])"
  by (cases "fst (async_update_data api s)")
     (simp_all add: refresh_run Let_def listeners_frame finally_frame finally_logged
        try_update_logged try_update_frame cancelled_update cancelled_fields update_logged
        fetch_logged)

lemma aborted_fields:
  assumes "refresh_aborts scheduled s"
  shows "data (refreshed scheduled api s) = data s"
    and "last_update_success (refreshed scheduled api s) = last_update_success s"
    and "last_exception (refreshed scheduled api s) = last_exception s"
    and "device_info (refreshed scheduled api s) = device_info s"
    and "notified (refreshed scheduled api s) = notified s"
    and "api_calls (refreshed scheduled api s) = api_calls s"
    and "logged (refreshed scheduled api s) = logged s"
    and "fst (async_refresh scheduled api s) = None"
  by (simp_all add: refresh_abort [OF assms])

lemma poll_is_Exception:
  assumes "\<forall>e. get_device_info api = Inl e \<longrightarrow> is_Exception e"
    and "\<forall>e. get_output_data api = Inl e \<longrightarrow> is_Exception e"
    and "poll api s = Inl e"
  shows "is_Exception e"
proof -
  have f: "fst (fetch_device_info api s) = None"
    using assms(1) by (simp add: fetch_fst split: sum.split)
  from assms(3) f obtain e' where e': "get_output_data api = Inl e'" "e = reraise e'"
    by (cases "get_output_data api") (simp_all add: update_fst)
  from assms(2) e'(1) have "is_Exception e'" by blast
  with e'(2) show ?thesis by (simp add: reraise_def)
qed

subsection \<open>A sequence of refresh invocations\<close>

lemma known_device_info_step:
  assumes "device_info s \<noteq> None"
  shows "device_info (refreshed scheduled api s) = device_info s"
    and "count_list (api_calls (refreshed scheduled api s)) Get_device_info
           = count_list (api_calls s) Get_device_info"
proof -
  from assms obtain info where info: "device_info s = Some info" by blast
  show "device_info (refreshed scheduled api s) = device_info s"
    by (cases "refresh_aborts scheduled s")
       (simp_all add: aborted_fields refresh_device_info info)
  show "count_list (api_calls (refreshed scheduled api s)) Get_device_info
           = count_list (api_calls s) Get_device_info"
    by (cases "refresh_aborts scheduled s")
       (simp_all add: aborted_fields refresh_api_calls info)
qed

lemma known_device_info_all:
  "device_info s \<noteq> None \<Longrightarrow>
   device_info (refresh_all xs s) = device_info s
   \<and> count_list (api_calls (refresh_all xs s)) Get_device_info
       = count_list (api_calls s) Get_device_info"
proof (induction xs arbitrary: s)
  case Nil
  then show ?case by simp
next
  case (Cons x xs)
  obtain scheduled api where x: "x = (scheduled, api)" by (cases x)
  from Cons.prems have d: "device_info (refreshed scheduled api s) \<noteq> None"
    by (simp add: known_device_info_step)
  from Cons.IH [OF d] Cons.prems show ?case
    by (simp add: x known_device_info_step)
qed

subsection \<open>The examples\<close>

lemma example_facts:
  "\<not> refresh_aborts True failed_coordinator"
  "\<not> last_update_success failed_coordinator"
  "data failed_coordinator = Some 7"
  "device_info failed_coordinator = None"
  "last_exception failed_coordinator = Some (OtherException ''old'')"
  "listeners failed_coordinator = [1, 2]"
  "notified failed_coordinator = []"
  "logged failed_coordinator = []"
  "api_calls failed_coordinator = []"
  "update_interval failed_coordinator = 10"
  "\<not> is_stopping failed_coordinator"
  by (simp_all add: refresh_aborts_def failed_coordinator_def)

lemma example_polls:
  "poll device_timeout failed_coordinator = Inl InverterNotAvailable"
  "poll device_broken failed_coordinator = Inl (OtherException ''bad json'')"
  "poll device_ok failed_coordinator = Inr (Some 42)"
  by (simp_all add: update_fst fetch_fst reraise_def device_timeout_def device_broken_def
        device_ok_def failed_coordinator_def)

section \<open>Properties of the set-power service\<close>

text \<open>
  C5. For every integer power value given to the set-power service: a value below
  \<open>MIN_VALUE\<close> reaches the device client as exactly \<open>MIN_VALUE\<close> and a warning is logged; a
  value above \<open>MAX_VALUE\<close> reaches it as exactly \<open>MAX_VALUE\<close> and a warning is logged; a
  value within the bounds reaches it unmodified and no warning is logged. The two constants
  bound a range, \<open>MIN_VALUE \<le> MAX_VALUE\<close>.
\<close>

theorem set_power_clamps:
  assumes "MIN_VALUE \<le> MAX_VALUE"
  shows "(pwr < MIN_VALUE \<longrightarrow>
            snd (snd (set_power_service MIN_VALUE MAX_VALUE api pwr)) = [Set_power MIN_VALUE]
          \<and> (WARNING, Below_minimum pwr MIN_VALUE)
              \<in> set (fst (snd (set_power_service MIN_VALUE MAX_VALUE api pwr))))
       \<and> (MAX_VALUE < pwr \<longrightarrow>
            snd (snd (set_power_service MIN_VALUE MAX_VALUE api pwr)) = [Set_power MAX_VALUE]
          \<and> (WARNING, Above_maximum pwr MAX_VALUE)
              \<in> set (fst (snd (set_power_service MIN_VALUE MAX_VALUE api pwr))))
       \<and> (MIN_VALUE \<le> pwr \<and> pwr \<le> MAX_VALUE \<longrightarrow>
            snd (snd (set_power_service MIN_VALUE MAX_VALUE api pwr)) = [Set_power pwr]
          \<and> (\<forall>r \<in> set (fst (snd (set_power_service MIN_VALUE MAX_VALUE api pwr))).
                fst r \<noteq> WARNING))"
  using assms by (simp add: set_power_service_def Let_def)

text \<open>With the bounds 20 and 100: 5 is sent as 20 and 150 as 100, each with its warning, and
  50 is sent as it is, with none.\<close>

theorem set_power_clamps_witness:
  "(20::int) \<le> 100
   \<and> snd (snd (set_power_service 20 100 device_ok 5)) = [Set_power 20]
   \<and> (WARNING, Below_minimum 5 20) \<in> set (fst (snd (set_power_service 20 100 device_ok 5)))
   \<and> snd (snd (set_power_service 20 100 device_ok 150)) = [Set_power 100]
   \<and> (WARNING, Above_maximum 150 100) \<in> set (fst (snd (set_power_service 20 100 device_ok 150)))
   \<and> snd (snd (set_power_service 20 100 device_ok 50)) = [Set_power 50]
   \<and> WARNING \<notin> fst ` set (fst (snd (set_power_service 20 100 device_ok 50)))"
proof -
  have h: "(20::int) \<le> 100" by simp
  show ?thesis
    using h set_power_clamps [OF h, of 5 device_ok] set_power_clamps [OF h, of 150 device_ok]
      set_power_clamps [OF h, of 50 device_ok]
    by auto
qed

text \<open>
  C8. For every invocation of the set-power service and every failure the device client's
  \<^verbatim>\<open>set_power\<close> call may raise, the failure reaches the caller of the service unmodified:
  the service calls the client once, and what that call raises or returns is what the service
  raises or returns.
\<close>

theorem set_power_failure_propagates:
  "\<exists>v. snd (snd (set_power_service MIN_VALUE MAX_VALUE api pwr)) = [Set_power v]
     \<and> fst (set_power_service MIN_VALUE MAX_VALUE api pwr) = set_power api v
     \<and> (\<forall>e. set_power api v = Inl e \<longrightarrow>
            fst (set_power_service MIN_VALUE MAX_VALUE api pwr) = Inl e)"
  by (simp add: set_power_service_def Let_def)

theorem set_power_failure_propagates_witness:
  "\<exists>v. snd (snd (set_power_service 20 100 device_timeout 50)) = [Set_power v]
     \<and> fst (set_power_service 20 100 device_timeout 50) = Inl TimeoutError"
proof -
  obtain v where
    v: "snd (snd (set_power_service 20 100 device_timeout 50)) = [Set_power v]"
       "\<forall>e. set_power device_timeout v = Inl e \<longrightarrow>
            fst (set_power_service 20 100 device_timeout 50) = Inl e"
    using set_power_failure_propagates [of 20 100 device_timeout 50] by blast
  have "set_power device_timeout v = Inl TimeoutError" by (simp add: device_timeout_def)
  with v show ?thesis by blast
qed

section \<open>Properties of the refresh step\<close>

text \<open>
  C6. A refresh invocation for which a shutdown has been requested, or which is a scheduled
  call while the host is stopping, returns at once: no device-client call is made, no next
  timer invocation is arranged, and the snapshot, the success flag, the last exception and the
  device info are unchanged. Nothing is logged and no listener is notified either; what the
  invocation has done before it returns is to cancel the pending timer and the pending
  debounced refresh.
\<close>

theorem aborted_refresh_is_noop:
  assumes "shutdown_requested s \<or> scheduled \<and> is_stopping s"
  shows "async_refresh scheduled api s
           = (None, s\<lparr>unsub_refresh := None, debounced_refresh := False\<rparr>)
       \<and> api_calls (snd (async_refresh scheduled api s)) = api_calls s
       \<and> unsub_refresh (snd (async_refresh scheduled api s)) = None
       \<and> data (snd (async_refresh scheduled api s)) = data s
       \<and> last_update_success (snd (async_refresh scheduled api s)) = last_update_success s
       \<and> last_exception (snd (async_refresh scheduled api s)) = last_exception s
       \<and> device_info (snd (async_refresh scheduled api s)) = device_info s
       \<and> logged (snd (async_refresh scheduled api s)) = logged s
       \<and> notified (snd (async_refresh scheduled api s)) = notified s"
proof -
  from assms have "refresh_aborts scheduled s" by (simp add: refresh_aborts_def)
  then have "async_refresh scheduled api s
           = (None, s\<lparr>unsub_refresh := None, debounced_refresh := False\<rparr>)"
    by (rule refresh_abort)
  then show ?thesis by simp
qed

theorem aborted_refresh_is_noop_witness:
  "(shutdown_requested (failed_coordinator\<lparr>is_stopping := True\<rparr>)
      \<or> True \<and> is_stopping (failed_coordinator\<lparr>is_stopping := True\<rparr>))
   \<and> api_calls (snd (async_refresh True device_ok (failed_coordinator\<lparr>is_stopping := True\<rparr>))) = []
   \<and> unsub_refresh (snd (async_refresh True device_ok (failed_coordinator\<lparr>is_stopping := True\<rparr>))) = None
   \<and> data (snd (async_refresh True device_ok (failed_coordinator\<lparr>is_stopping := True\<rparr>))) = Some 7"
proof -
  have h: "shutdown_requested (failed_coordinator\<lparr>is_stopping := True\<rparr>)
      \<or> True \<and> is_stopping (failed_coordinator\<lparr>is_stopping := True\<rparr>)" by simp
  show ?thesis
    using h aborted_refresh_is_noop [OF h, of device_ok]
    by (simp add: failed_coordinator_def)
qed

text \<open>
  C1. If the poll of a refresh invocation fails, with the \<open>InverterNotAvailable\<close>
  classification or with any other error, the snapshot after the invocation is the snapshot
  before it; the snapshot is replaced, as a whole, only when the poll succeeds, and then by
  what the poll returned.
\<close>
theorem snapshot_kept_on_failed_poll:
  "(\<forall>e. poll api s = Inl e \<longrightarrow> data (refreshed scheduled api s) = data s)
   \<and> (\<forall>d. \<not> refresh_aborts scheduled s \<and> poll api s = Inr d
          \<longrightarrow> data (refreshed scheduled api s) = d)
   \<and> (data (refreshed scheduled api s) \<noteq> data s
        \<longrightarrow> \<not> refresh_aborts scheduled s
            \<and> poll api s = Inr (data (refreshed scheduled api s)))"
proof (cases "refresh_aborts scheduled s")
  case True
  then show ?thesis by (simp add: aborted_fields)
next
  case False
  then show ?thesis
    by (cases "poll api s") (simp_all add: refresh_data)
qed

theorem snapshot_kept_on_failed_poll_witness:
  "poll device_timeout failed_coordinator = Inl InverterNotAvailable
   \<and> data (refreshed True device_timeout failed_coordinator) = Some 7
   \<and> poll device_broken failed_coordinator = Inl (OtherException ''bad json'')
   \<and> data (refreshed True device_broken failed_coordinator) = Some 7
   \<and> \<not> refresh_aborts True failed_coordinator
   \<and> poll device_ok failed_coordinator = Inr (Some 42)
   \<and> data (refreshed True device_ok failed_coordinator) = Some 42"
proof -
  have t: "poll device_timeout failed_coordinator = Inl InverterNotAvailable"
    by (simp add: update_fst fetch_fst reraise_def device_timeout_def failed_coordinator_def)
  have b: "poll device_broken failed_coordinator = Inl (OtherException ''bad json'')"
    by (simp add: update_fst fetch_fst reraise_def device_broken_def failed_coordinator_def)
  have n: "\<not> refresh_aborts True failed_coordinator"
    by (simp add: refresh_aborts_def failed_coordinator_def)
  have k: "poll device_ok failed_coordinator = Inr (Some 42)"
    by (simp add: update_fst fetch_fst device_ok_def failed_coordinator_def)
  have d: "data failed_coordinator = Some 7" by (simp add: failed_coordinator_def)
  have "data (refreshed True device_timeout failed_coordinator) = data failed_coordinator"
    using t snapshot_kept_on_failed_poll [of device_timeout failed_coordinator True] by blast
  moreover
  have "data (refreshed True device_broken failed_coordinator) = data failed_coordinator"
    using b snapshot_kept_on_failed_poll [of device_broken failed_coordinator True] by blast
  moreover
  have "data (refreshed True device_ok failed_coordinator) = Some 42"
    using n k snapshot_kept_on_failed_poll [of device_ok failed_coordinator True] by blast
  ultimately show ?thesis
    using t b n k d by simp
qed

text \<open>
  C2. In a refresh invocation that reaches the classification of its outcome: if the previous
  poll had failed and this one fails too (the success flag is false before and after), no
  listener is notified during the invocation.
\<close>
theorem no_notification_on_repeated_failure:
  assumes "\<not> refresh_aborts scheduled s" and "\<not> last_update_success s"
  shows "(\<not> last_update_success (refreshed scheduled api s)
            \<longrightarrow> notified (refreshed scheduled api s) = notified s)
       \<and> (\<forall>e. poll api s = Inl e
            \<longrightarrow> \<not> last_update_success (refreshed scheduled api s)
                \<and> notified (refreshed scheduled api s) = notified s)"
proof -
  have a: "\<not> last_update_success (refreshed scheduled api s)
            \<Longrightarrow> notified (refreshed scheduled api s) = notified s"
    using assms by (simp add: refresh_notified)
  have b: "poll api s = Inl e \<Longrightarrow> \<not> last_update_success (refreshed scheduled api s)" for e
    using assms by (simp add: refresh_success)
  from a b show ?thesis by blast
qed

theorem no_notification_on_repeated_failure_witness:
  "\<not> refresh_aborts True failed_coordinator
   \<and> \<not> last_update_success failed_coordinator
   \<and> poll device_timeout failed_coordinator = Inl InverterNotAvailable
   \<and> \<not> last_update_success (refreshed True device_timeout failed_coordinator)
   \<and> notified (refreshed True device_timeout failed_coordinator) = []"
proof -
  have n: "\<not> refresh_aborts True failed_coordinator"
    by (simp add: refresh_aborts_def failed_coordinator_def)
  have f: "\<not> last_update_success failed_coordinator" by (simp add: failed_coordinator_def)
  have t: "poll device_timeout failed_coordinator = Inl InverterNotAvailable"
    by (simp add: update_fst fetch_fst reraise_def device_timeout_def failed_coordinator_def)
  have e: "notified failed_coordinator = []" by (simp add: failed_coordinator_def)
  show ?thesis
    using n f t e no_notification_on_repeated_failure [OF n f, of device_timeout]
    by simp
qed

text \<open>
  C3. In a refresh invocation whose poll succeeds while the previous one had failed, the
  success flag becomes true, the recovery notice is logged at info severity, and every
  listener is notified, whether or not the new snapshot equals the previous one (and whatever
  \<^verbatim>\<open>always_update\<close> is).
\<close>
theorem recovery_logged_and_notified:
  assumes "\<not> refresh_aborts scheduled s" and "\<not> last_update_success s"
    and "poll api s = Inr d"
  shows "last_update_success (refreshed scheduled api s)
       \<and> (\<exists>pre post. logged (refreshed scheduled api s)
             = logged s @ pre @ (INFO, Fetching_recovered) # post)
       \<and> notified (refreshed scheduled api s) = notified s @ listeners s
       \<and> data (refreshed scheduled api s) = d
       \<and> fst (async_refresh scheduled api s) = None"
proof -
  have s: "last_update_success (refreshed scheduled api s)"
    using assms by (simp add: refresh_success)
  have r: "fst (async_refresh scheduled api s) = None"
    using assms by (simp add: refresh_fst)
  have n: "notified (refreshed scheduled api s) = notified s @ listeners s"
    using assms s r by (simp add: refresh_notified)
  have d: "data (refreshed scheduled api s) = d"
    using assms by (simp add: refresh_data)
  obtain pre where pre: "logged (snd (fetch_device_info api s)) = logged s @ pre"
    by (simp add: fetch_logged)
  have "logged (refreshed scheduled api s)
      = logged s @ pre @ (INFO, Fetching_recovered)
          # (if debug_enabled s then [(DEBUG, Finished_fetching True)] else [])"
    using assms pre s by (simp add: refresh_logged)
  then have l: "\<exists>pre post. logged (refreshed scheduled api s)
             = logged s @ pre @ (INFO, Fetching_recovered) # post"
    by blast
  from s l n d r show ?thesis by blast
qed

text \<open>The same holds when the device returns the snapshot the coordinator already has and
  \<^verbatim>\<open>always_update\<close> is off.\<close>

theorem recovery_logged_and_notified_witness:
  "\<not> refresh_aborts True failed_coordinator
   \<and> \<not> last_update_success failed_coordinator
   \<and> poll device_ok failed_coordinator = Inr (Some 42)
   \<and> last_update_success (refreshed True device_ok failed_coordinator)
   \<and> (\<exists>pre post. logged (refreshed True device_ok failed_coordinator)
          = pre @ (INFO, Fetching_recovered) # post)
   \<and> notified (refreshed True device_ok failed_coordinator) = [1, 2]
   \<and> \<not> refresh_aborts True (failed_coordinator\<lparr>always_update := False\<rparr>)
   \<and> \<not> last_update_success (failed_coordinator\<lparr>always_update := False\<rparr>)
   \<and> poll (device_ok\<lparr>get_output_data := Inr (Some 7)\<rparr>)
        (failed_coordinator\<lparr>always_update := False\<rparr>) = Inr (data failed_coordinator)
   \<and> notified (refreshed True (device_ok\<lparr>get_output_data := Inr (Some 7)\<rparr>)
        (failed_coordinator\<lparr>always_update := False\<rparr>)) = [1, 2]"
proof -
  note r = recovery_logged_and_notified
    [OF example_facts(1) example_facts(2) example_polls(3)]
  have s: "last_update_success (refreshed True device_ok failed_coordinator)"
    using r by blast
  have l: "\<exists>pre post. logged (refreshed True device_ok failed_coordinator)
          = pre @ (INFO, Fetching_recovered) # post"
    using r by (simp add: example_facts)
  have n: "notified (refreshed True device_ok failed_coordinator) = [1, 2]"
    using r by (simp add: example_facts)
  have a: "\<not> refresh_aborts True (failed_coordinator\<lparr>always_update := False\<rparr>)"
    by (simp add: refresh_aborts_def failed_coordinator_def)
  have f: "\<not> last_update_success (failed_coordinator\<lparr>always_update := False\<rparr>)"
    by (simp add: failed_coordinator_def)
  have p: "poll (device_ok\<lparr>get_output_data := Inr (Some 7)\<rparr>)
        (failed_coordinator\<lparr>always_update := False\<rparr>) = Inr (data failed_coordinator)"
    by (simp add: update_fst fetch_fst device_ok_def failed_coordinator_def)
  have m: "notified (refreshed True (device_ok\<lparr>get_output_data := Inr (Some 7)\<rparr>)
        (failed_coordinator\<lparr>always_update := False\<rparr>)) = [1, 2]"
    using recovery_logged_and_notified [OF a f p] by (simp add: failed_coordinator_def)
  from s l n a f p m show ?thesis
    using example_facts(1,2) example_polls(3) by blast
qed

text \<open>
  C4. On each poll, \<^verbatim>\<open>get_device_info\<close> is called if and only if the device info is
  still unset; when the call fails, a warning is logged, the data fetch still takes place and
  alone decides the outcome of the poll, and the device info stays unset; when it succeeds,
  the device info is set, and from then on no sequence of refresh invocations calls
  \<^verbatim>\<open>get_device_info\<close> again or changes the device info.
\<close>
theorem device_info_fetched_until_first_success:
  "(\<not> refresh_aborts scheduled s \<longrightarrow>
      (\<exists>rest. api_calls (refreshed scheduled api s)
                = api_calls s @ (if device_info s = None then [Get_device_info] else []) @ rest
             \<and> Get_device_info \<notin> set rest))
   \<and> (\<forall>e. \<not> refresh_aborts scheduled s \<and> device_info s = None
          \<and> get_device_info api = Inl e \<and> is_Exception e \<longrightarrow>
          (\<exists>post. logged (refreshed scheduled api s)
                    = logged s @ (WARNING, Failed_to_get_device_info e) # post)
          \<and> api_calls (refreshed scheduled api s)
              = api_calls s @ [Get_device_info, Get_output_data]
          \<and> poll api s
              = (case get_output_data api of Inr d \<Rightarrow> Inr d | Inl e' \<Rightarrow> Inl (reraise e'))
          \<and> device_info (refreshed scheduled api s) = None)
   \<and> (\<forall>info. \<not> refresh_aborts scheduled s \<and> device_info s = None
          \<and> get_device_info api = Inr info \<longrightarrow>
          device_info (refreshed scheduled api s) = Some info)
   \<and> (device_info s \<noteq> None \<longrightarrow>
        device_info (refresh_all xs s) = device_info s
        \<and> count_list (api_calls (refresh_all xs s)) Get_device_info
            = count_list (api_calls s) Get_device_info)"
proof -
  have a: "\<exists>rest. api_calls (refreshed scheduled api s)
                = api_calls s @ (if device_info s = None then [Get_device_info] else []) @ rest
             \<and> Get_device_info \<notin> set rest"
    if "\<not> refresh_aborts scheduled s"
  proof -
    let ?rest = "if fst (fetch_device_info api s) = None then [Get_output_data] else []"
    have "api_calls (refreshed scheduled api s)
                = api_calls s @ (if device_info s = None then [Get_device_info] else []) @ ?rest"
      using that by (rule refresh_api_calls)
    moreover have "Get_device_info \<notin> set ?rest" by simp
    ultimately show ?thesis by blast
  qed
  have b: "(\<exists>post. logged (refreshed scheduled api s)
                    = logged s @ (WARNING, Failed_to_get_device_info e) # post)
          \<and> api_calls (refreshed scheduled api s)
              = api_calls s @ [Get_device_info, Get_output_data]
          \<and> poll api s
              = (case get_output_data api of Inr d \<Rightarrow> Inr d | Inl e' \<Rightarrow> Inl (reraise e'))
          \<and> device_info (refreshed scheduled api s) = None"
    if h: "\<not> refresh_aborts scheduled s" "device_info s = None"
      "get_device_info api = Inl e" "is_Exception e" for e
  proof -
    have f: "fst (fetch_device_info api s) = None"
      using h by (simp add: fetch_fst)
    have l0: "logged (snd (fetch_device_info api s))
                = logged s @ [(WARNING, Failed_to_get_device_info e)]"
      using h by (simp add: fetch_logged)
    obtain post where "logged (refreshed scheduled api s)
                = logged (snd (fetch_device_info api s)) @ post"
      using refresh_logged [OF h(1), of api] by simp
    with l0 have l: "\<exists>post. logged (refreshed scheduled api s)
                    = logged s @ (WARNING, Failed_to_get_device_info e) # post"
      by simp
    have c: "api_calls (refreshed scheduled api s)
              = api_calls s @ [Get_device_info, Get_output_data]"
      using h f by (simp add: refresh_api_calls)
    have p: "poll api s
              = (case get_output_data api of Inr d \<Rightarrow> Inr d | Inl e' \<Rightarrow> Inl (reraise e'))"
      using f by (simp add: update_fst)
    have d: "device_info (refreshed scheduled api s) = None"
      using h by (simp add: refresh_device_info)
    from l c p d show ?thesis by blast
  qed
  have c: "device_info (refreshed scheduled api s) = Some info"
    if "\<not> refresh_aborts scheduled s" "device_info s = None" "get_device_info api = Inr info"
    for info
    using that by (simp add: refresh_device_info)
  have d: "device_info (refresh_all xs s) = device_info s
        \<and> count_list (api_calls (refresh_all xs s)) Get_device_info
            = count_list (api_calls s) Get_device_info"
    if "device_info s \<noteq> None"
    using that by (rule known_device_info_all)
  from a b c d show ?thesis by blast
qed

theorem device_info_fetched_until_first_success_witness:
  "\<not> refresh_aborts True failed_coordinator
   \<and> device_info failed_coordinator = None
   \<and> get_device_info device_timeout = Inl TimeoutError \<and> is_Exception TimeoutError
   \<and> api_calls (refreshed True device_timeout failed_coordinator)
       = [Get_device_info, Get_output_data]
   \<and> device_info (refreshed True device_timeout failed_coordinator) = None
   \<and> get_device_info device_ok = Inr ''EZHI''
   \<and> device_info (refreshed True device_ok failed_coordinator) = Some ''EZHI''
   \<and> device_info (refresh_all [(True, device_ok), (True, device_timeout)]
         (refreshed True device_ok failed_coordinator)) = Some ''EZHI''
   \<and> count_list (api_calls (refresh_all [(True, device_ok), (True, device_timeout)]
         (refreshed True device_ok failed_coordinator))) Get_device_info
       = count_list (api_calls (refreshed True device_ok failed_coordinator)) Get_device_info"
proof -
  have g: "get_device_info device_timeout = Inl TimeoutError"
    "get_device_info device_ok = Inr ''EZHI''"
    by (simp_all add: device_timeout_def device_ok_def)
  have i: "is_Exception TimeoutError" by simp
  note t = device_info_fetched_until_first_success
    [where scheduled = True and s = failed_coordinator and api = device_timeout and xs = "[]"]
  have a: "api_calls (refreshed True device_timeout failed_coordinator)
       = api_calls failed_coordinator @ [Get_device_info, Get_output_data]
     \<and> device_info (refreshed True device_timeout failed_coordinator) = None"
    using t example_facts(1,4) g(1) i by blast
  note k = device_info_fetched_until_first_success
    [where scheduled = True and s = failed_coordinator and api = device_ok and xs = "[]"]
  have b: "device_info (refreshed True device_ok failed_coordinator) = Some ''EZHI''"
    using k example_facts(1,4) g(2) by blast
  then have b': "device_info (refreshed True device_ok failed_coordinator) \<noteq> None"
    by simp
  note q = device_info_fetched_until_first_success
    [where scheduled = True and s = "refreshed True device_ok failed_coordinator"
       and api = device_ok and xs = "[(True, device_ok), (True, device_timeout)]"]
  have c: "device_info (refresh_all [(True, device_ok), (True, device_timeout)]
         (refreshed True device_ok failed_coordinator))
       = device_info (refreshed True device_ok failed_coordinator)
     \<and> count_list (api_calls (refresh_all [(True, device_ok), (True, device_timeout)]
         (refreshed True device_ok failed_coordinator))) Get_device_info
       = count_list (api_calls (refreshed True device_ok failed_coordinator)) Get_device_info"
    using q b' by blast
  from a b c show ?thesis
    using example_facts(1,4,9) g i by simp
qed

text \<open>
  C7. Whatever the device client does in \<^verbatim>\<open>get_device_info\<close> and
  \<^verbatim>\<open>get_output_data\<close> (return, raise a timeout or connection error, or raise any other
  exception, an instance of \<^verbatim>\<open>Exception\<close>), the refresh step raises nothing to its
  caller: a failed poll leaves the success flag false, an unexpected error is also recorded in
  \<^verbatim>\<open>last_exception\<close> and logged at error severity, and polling goes on, since the next
  invocation is arranged as after a success and no shutdown is requested by the failure.
\<close>
theorem refresh_absorbs_device_failures:
  assumes "\<forall>e. get_device_info api = Inl e \<longrightarrow> is_Exception e"
    and "\<forall>e. get_output_data api = Inl e \<longrightarrow> is_Exception e"
  shows "fst (async_refresh scheduled api s) = None
       \<and> (\<forall>e. \<not> refresh_aborts scheduled s \<and> poll api s = Inl e \<longrightarrow>
             \<not> last_update_success (refreshed scheduled api s)
             \<and> (e \<noteq> InverterNotAvailable \<longrightarrow>
                  last_exception (refreshed scheduled api s) = Some e
                  \<and> (\<exists>pre post. logged (refreshed scheduled api s)
                        = logged s @ pre @ (ERROR, Unexpected_error_fetching e) # post)))
       \<and> (\<not> refresh_aborts scheduled s \<longrightarrow>
             unsub_refresh (refreshed scheduled api s)
               = (if listeners s \<noteq> [] \<and> \<not> is_stopping s then Some (update_interval s)
                  else None)
             \<and> shutdown_requested (refreshed scheduled api s) = shutdown_requested s)"
proof -
  have exc: "poll api s = Inl e \<Longrightarrow> is_Exception e" for e
    using assms by (rule poll_is_Exception)
  have r: "fst (async_refresh scheduled api s) = None"
  proof (cases "refresh_aborts scheduled s")
    case True
    then show ?thesis by (simp add: aborted_fields)
  next
    case False
    then show ?thesis
      using exc by (cases "poll api s") (simp_all add: refresh_fst)
  qed
  have f: "\<not> last_update_success (refreshed scheduled api s)"
    if "\<not> refresh_aborts scheduled s" "poll api s = Inl e" for e
    using that exc [of e] by (simp add: refresh_success)
  have x: "last_exception (refreshed scheduled api s) = Some e"
    if "\<not> refresh_aborts scheduled s" "poll api s = Inl e" "e \<noteq> InverterNotAvailable" for e
    using that exc [of e] by (simp add: refresh_exception)
  have l: "\<exists>pre post. logged (refreshed scheduled api s)
                        = logged s @ pre @ (ERROR, Unexpected_error_fetching e) # post"
    if "\<not> refresh_aborts scheduled s" "poll api s = Inl e" "e \<noteq> InverterNotAvailable" for e
  proof -
    obtain pre where pre: "logged (snd (fetch_device_info api s)) = logged s @ pre"
      by (simp add: fetch_logged)
    have "logged (refreshed scheduled api s)
        = logged s @ pre @ (ERROR, Unexpected_error_fetching e)
            # (if debug_enabled s
               then [(DEBUG, Finished_fetching (last_update_success (refreshed scheduled api s)))]
               else [])"
      using that exc [of e] by (simp add: refresh_logged pre)
    then show ?thesis by blast
  qed
  have t: "unsub_refresh (refreshed scheduled api s)
               = (if listeners s \<noteq> [] \<and> \<not> is_stopping s then Some (update_interval s)
                  else None)
             \<and> shutdown_requested (refreshed scheduled api s) = shutdown_requested s"
    if "\<not> refresh_aborts scheduled s"
    using that refresh_frame [OF that, of api] by (simp add: refresh_unsub)
  from r f x l t show ?thesis by blast
qed

theorem refresh_absorbs_device_failures_witness:
  "get_device_info device_broken = Inl (OtherException ''bad json'')
   \<and> get_output_data device_broken = Inl (OtherException ''bad json'')
   \<and> is_Exception (OtherException ''bad json'')
   \<and> \<not> refresh_aborts True failed_coordinator
   \<and> poll device_broken failed_coordinator = Inl (OtherException ''bad json'')
   \<and> fst (async_refresh True device_broken failed_coordinator) = None
   \<and> \<not> last_update_success (refreshed True device_broken failed_coordinator)
   \<and> last_exception (refreshed True device_broken failed_coordinator)
       = Some (OtherException ''bad json'')
   \<and> unsub_refresh (refreshed True device_broken failed_coordinator) = Some 10"
proof -
  have g: "get_device_info device_broken = Inl (OtherException ''bad json'')"
    "get_output_data device_broken = Inl (OtherException ''bad json'')"
    by (simp_all add: device_broken_def)
  have h1: "\<forall>e. get_device_info device_broken = Inl e \<longrightarrow> is_Exception e"
    by (simp add: g)
  have h2: "\<forall>e. get_output_data device_broken = Inl e \<longrightarrow> is_Exception e"
    by (simp add: g)
  note r = refresh_absorbs_device_failures
    [OF h1 h2, where scheduled = True and s = failed_coordinator]
  have a: "fst (async_refresh True device_broken failed_coordinator) = None"
    using r by blast
  have b: "\<not> last_update_success (refreshed True device_broken failed_coordinator)"
    using r example_facts(1) example_polls(2) by blast
  have ne: "OtherException ''bad json'' \<noteq> InverterNotAvailable" by simp
  have c: "last_exception (refreshed True device_broken failed_coordinator)
       = Some (OtherException ''bad json'')"
    using r example_facts(1) example_polls(2) ne by blast
  have "unsub_refresh (refreshed True device_broken failed_coordinator)
       = (if listeners failed_coordinator \<noteq> [] \<and> \<not> is_stopping failed_coordinator
          then Some (update_interval failed_coordinator) else None)"
    using r example_facts(1) by blast
  then have d: "unsub_refresh (refreshed True device_broken failed_coordinator) = Some 10"
    by (simp add: example_facts)
  have i: "is_Exception (OtherException ''bad json'')" by simp
  from g i a b c d show ?thesis
    using example_facts(1) example_polls(2) by blast
qed

text \<open>
  C9. After a refresh invocation that did not abort, whatever the outcome of its poll, the
  next timer-driven invocation is arranged if and only if there are listeners and the host is
  not stopping; the interval it is arranged with is 10 seconds when the coordinator was
  created with no interval (\<open>None\<close>), and the caller's interval otherwise.
\<close>
theorem reschedule_iff_listeners_and_running:
  "(\<not> refresh_aborts scheduled s \<longrightarrow>
      (unsub_refresh (refreshed scheduled api s) = Some (update_interval s))
         = (listeners s \<noteq> [] \<and> \<not> is_stopping s)
    \<and> (unsub_refresh (refreshed scheduled api s) = None)
         = (\<not> (listeners s \<noteq> [] \<and> \<not> is_stopping s)))
   \<and> update_interval (coordinator_init base None) = 10
   \<and> update_interval (coordinator_init base (Some i)) = i"
  by (simp add: refresh_unsub coordinator_init_def)

theorem reschedule_iff_listeners_and_running_witness:
  "\<not> refresh_aborts True failed_coordinator
   \<and> listeners failed_coordinator \<noteq> [] \<and> \<not> is_stopping failed_coordinator
   \<and> unsub_refresh (refreshed True device_timeout failed_coordinator) = Some 10
   \<and> update_interval (coordinator_init failed_coordinator None) = 10"
proof -
  note r = reschedule_iff_listeners_and_running
    [where scheduled = True and s = failed_coordinator and api = device_timeout
       and base = failed_coordinator and i = 5]
  have l: "listeners failed_coordinator \<noteq> []" by (simp add: example_facts)
  have "unsub_refresh (refreshed True device_timeout failed_coordinator)
          = Some (update_interval failed_coordinator)"
    using example_facts(1,11) l r by blast
  moreover have "update_interval (coordinator_init failed_coordinator None) = 10"
    using r by blast
  ultimately show ?thesis
    using example_facts l by simp
qed

text \<open>
  C10. A refresh invocation assigns \<^verbatim>\<open>last_exception\<close> only when its poll fails with an
  unexpected error; after an \<open>InverterNotAvailable\<close> failure and after a successful poll the
  field holds what it held before, so it can name an earlier error while the success flag is
  true.
\<close>
theorem last_exception_only_set_on_unexpected_error:
  "(last_exception (refreshed scheduled api s) \<noteq> last_exception s \<longrightarrow>
      \<not> refresh_aborts scheduled s
      \<and> (\<exists>e. poll api s = Inl e \<and> e \<noteq> InverterNotAvailable \<and> is_Exception e
             \<and> last_exception (refreshed scheduled api s) = Some e))
   \<and> (poll api s = Inl InverterNotAvailable \<longrightarrow>
        last_exception (refreshed scheduled api s) = last_exception s)
   \<and> (\<forall>d. \<not> refresh_aborts scheduled s \<and> poll api s = Inr d \<longrightarrow>
        last_exception (refreshed scheduled api s) = last_exception s
        \<and> last_update_success (refreshed scheduled api s))"
proof (cases "refresh_aborts scheduled s")
  case True
  then show ?thesis by (simp add: aborted_fields)
next
  case False
  then show ?thesis
    by (cases "poll api s") (simp_all add: refresh_exception refresh_success)
qed

theorem last_exception_only_set_on_unexpected_error_witness:
  "poll device_timeout failed_coordinator = Inl InverterNotAvailable
   \<and> last_exception (refreshed True device_timeout failed_coordinator)
       = Some (OtherException ''old'')
   \<and> \<not> refresh_aborts True failed_coordinator
   \<and> poll device_ok failed_coordinator = Inr (Some 42)
   \<and> last_exception (refreshed True device_ok failed_coordinator) = Some (OtherException ''old'')
   \<and> last_update_success (refreshed True device_ok failed_coordinator)"
proof -
  have "last_exception (refreshed True device_timeout failed_coordinator)
          = last_exception failed_coordinator"
    using example_polls(1)
      last_exception_only_set_on_unexpected_error [of True device_timeout failed_coordinator]
    by blast
  moreover
  have "last_exception (refreshed True device_ok failed_coordinator)
          = last_exception failed_coordinator
        \<and> last_update_success (refreshed True device_ok failed_coordinator)"
    using example_polls(3) example_facts(1)
      last_exception_only_set_on_unexpected_error [of True device_ok failed_coordinator]
    by blast
  ultimately show ?thesis
    using example_polls example_facts by simp
qed

end
